theory Spec2Isabelle
  imports Complex_Main "HOL-Library.Sublist"
begin

section \<open>Python values\<close>

text \<open>
  A Python expression either returns a value or raises an exception. The program only
  ever looks at an exception through \<^verbatim>\<open>str(e)\<close> (in \<^verbatim>\<open>f"Error: {e}"\<close>), so a raised
  exception is represented by that text: \<open>Inl m\<close> is "raised an exception \<open>e\<close> with
  \<open>str(e) = m\<close>", \<open>Inr v\<close> is "returned \<open>v\<close>".
\<close>

type_synonym 'a py = "string + 'a"

subsection \<open>Strings\<close>

text \<open>
  A Python string is modelled by its UTF-8 encoding, a list of bytes. Concatenation of
  strings is concatenation of the encodings, and since no byte of an ASCII character
  occurs inside the encoding of another character, an ASCII text occurs in a string
  exactly when its bytes occur in the encoding.
\<close>

text \<open>
  Lower-casing of the letters \<open>A\<close> to \<open>Z\<close>, every other byte left alone. This is what
  \<^verbatim>\<open>str.lower()\<close> does on ASCII text; on other text \<^verbatim>\<open>str.lower()\<close> follows the Unicode
  case mappings and is a parameter of the model (\<open>str_lower\<close> below).
\<close>

definition lower_char :: "char \<Rightarrow> char" where
  "lower_char c =
     (case map_of (zip ''ABCDEFGHIJKLMNOPQRSTUVWXYZ'' ''abcdefghijklmnopqrstuvwxyz'') c of
        Some d \<Rightarrow> d
      | None \<Rightarrow> c)"

definition ascii_lower :: "string \<Rightarrow> string" where
  "ascii_lower s = map lower_char s"

text \<open>\<^verbatim>\<open>sub in s\<close> on strings: \<open>sub\<close> occurs in \<open>s\<close> as a contiguous run.\<close>

fun contains :: "string \<Rightarrow> string \<Rightarrow> bool" where
  "contains sub [] = (sub = [])"
| "contains sub (c # cs) = (prefix sub (c # cs) \<or> contains sub cs)"

text \<open>A value interpolated between single quotes, as in \<^verbatim>\<open>'{column}'\<close>.\<close>

definition quoted :: "string \<Rightarrow> string" where
  "quoted s = [CHR 0x27] @ s @ [CHR 0x27]"

text \<open>\<^verbatim>\<open>str(n)\<close> of a non-negative integer: its decimal digits.\<close>

definition digit_char :: "nat \<Rightarrow> char" where
  "digit_char d = ''0123456789'' ! d"

function str_nat :: "nat \<Rightarrow> string" where
  "str_nat n = (if n < 10 then [digit_char n] else str_nat (n div 10) @ [digit_char (n mod 10)])"
  by pat_completeness auto
termination
  by (relation "measure (\<lambda>n. n)") auto

declare str_nat.simps [simp del]

section \<open>The libraries the program calls\<close>

text \<open>
  The program is a thin layer over pandas and spaCy, whose code is not part of the
  repository. Their operations are parameters of the model, collected in one record.
  So is \<^verbatim>\<open>str.lower()\<close> of the Python runtime, which follows the Unicode case mappings.
  The type \<open>'c\<close> is what a cell of a table holds, \<open>'f\<close> is pandas' float64.
  \<^item> \<open>str_lower text\<close> is \<^verbatim>\<open>text.lower()\<close>.
  \<^item> \<open>spacy_load name\<close> and \<open>nlp_call text\<close> say whether \<^verbatim>\<open>spacy.load(name)\<close> and
    \<^verbatim>\<open>nlp(text)\<close> raise (\<open>Some m\<close>) or return (\<open>None\<close>); what they return is never used.
  \<^item> \<open>key_error column\<close> is \<^verbatim>\<open>str(e)\<close> of the \<^verbatim>\<open>KeyError\<close> that \<^verbatim>\<open>df[column]\<close> raises.
  \<^item> \<open>notna\<close> tells the cells that \<^verbatim>\<open>Series.count()\<close> counts.
  \<^item> \<open>astype_float\<close> is \<^verbatim>\<open>Series.astype(float)\<close>; it raises when a cell has no float value.
  \<^item> \<open>s_min\<close> to \<open>s_var\<close> are the reductions \<^verbatim>\<open>.min()\<close>, \<^verbatim>\<open>.max()\<close>, \<^verbatim>\<open>.mean()\<close>,
    \<^verbatim>\<open>.sum()\<close>, \<^verbatim>\<open>.median()\<close>, \<^verbatim>\<open>.std()\<close>, \<^verbatim>\<open>.var()\<close> of a float64 Series.
  \<^item> \<open>str_float\<close> is how an f-string prints such a result.
\<close>

record ('c, 'f) env =
  str_lower :: "string \<Rightarrow> string"
  spacy_load :: "string \<Rightarrow> string option"
  nlp_call :: "string \<Rightarrow> string option"
  key_error :: "string \<Rightarrow> string"
  notna :: "'c \<Rightarrow> bool"
  astype_float :: "'c list \<Rightarrow> 'f list py"
  s_min :: "'f list \<Rightarrow> 'f"
  s_max :: "'f list \<Rightarrow> 'f"
  s_mean :: "'f list \<Rightarrow> 'f"
  s_sum :: "'f list \<Rightarrow> 'f"
  s_median :: "'f list \<Rightarrow> 'f"
  s_std :: "'f list \<Rightarrow> 'f"
  s_var :: "'f list \<Rightarrow> 'f"
  str_float :: "'f \<Rightarrow> string"

text \<open>
  A table maps each column label to the cells of that column, top to bottom. Labels
  are unique, as in the specification's data model.
\<close>

type_synonym 'c table = "string \<rightharpoonup> 'c list"

text \<open>\<^verbatim>\<open>df[column]\<close>\<close>

definition getitem :: "('c, 'f) env \<Rightarrow> 'c table \<Rightarrow> string \<Rightarrow> 'c list py" where
  "getitem E df column =
     (case df column of None \<Rightarrow> Inl (key_error E column) | Some cells \<Rightarrow> Inr cells)"

text \<open>\<^verbatim>\<open>df[column].astype(float)\<close>\<close>

definition float_column :: "('c, 'f) env \<Rightarrow> 'c table \<Rightarrow> string \<Rightarrow> 'f list py" where
  "float_column E df column =
     (case getitem E df column of Inl e \<Rightarrow> Inl e | Inr cells \<Rightarrow> astype_float E cells)"

text \<open>\<^verbatim>\<open>Series.count()\<close>: the number of cells that are not null.\<close>

definition count_notna :: "('c, 'f) env \<Rightarrow> 'c list \<Rightarrow> nat" where
  "count_notna E cells = length (filter (notna E) cells)"

section \<open>\<^verbatim>\<open>extract_info\<close>\<close>

definition unsupported :: string where
  "unsupported = ''Query not supported. Please rephrase your query to include 'minimum', 'maximum', 'average', 'sum', 'count', 'median', 'standard deviation', or 'variance'.''"

text \<open>
  Lines 46 to 72 of the source: the prompt is lower-cased and the \<^verbatim>\<open>if\<close>/\<^verbatim>\<open>elif\<close>
  chain is walked, branch by branch as written.
\<close>

definition extract_info_cascade :: "('c, 'f) env \<Rightarrow> 'c table \<Rightarrow> string \<Rightarrow> string \<Rightarrow> string py" where
  "extract_info_cascade E df column prompt0 =
     (let prompt = str_lower E prompt0 in
      if contains ''minimum'' prompt \<or> contains ''lowest'' prompt then
        (case float_column E df column of Inl e \<Rightarrow> Inl e | Inr xs \<Rightarrow>
           Inr (''The minimum value in column '' @ quoted column @ '' is ''
                @ str_float E (s_min E xs) @ ''.''))
      else if contains ''maximum'' prompt \<or> contains ''highest'' prompt then
        (case float_column E df column of Inl e \<Rightarrow> Inl e | Inr xs \<Rightarrow>
           Inr (''The maximum value in column '' @ quoted column @ '' is ''
                @ str_float E (s_max E xs) @ ''.''))
      else if contains ''average'' prompt \<or> contains ''mean'' prompt then
        (case float_column E df column of Inl e \<Rightarrow> Inl e | Inr xs \<Rightarrow>
           Inr (''The average value in column '' @ quoted column @ '' is ''
                @ str_float E (s_mean E xs) @ ''.''))
      else if contains ''sum'' prompt \<or> contains ''total'' prompt then
        (case float_column E df column of Inl e \<Rightarrow> Inl e | Inr xs \<Rightarrow>
           Inr (''The sum of values in column '' @ quoted column @ '' is ''
                @ str_float E (s_sum E xs) @ ''.''))
      else if contains ''count'' prompt \<or> contains ''number of'' prompt then
        (case getitem E df column of Inl e \<Rightarrow> Inl e | Inr cells \<Rightarrow>
           Inr (''The count of values in column '' @ quoted column @ '' is ''
                @ str_nat (count_notna E cells) @ ''.''))
      else if contains ''median'' prompt then
        (case float_column E df column of Inl e \<Rightarrow> Inl e | Inr xs \<Rightarrow>
           Inr (''The median value in column '' @ quoted column @ '' is ''
                @ str_float E (s_median E xs) @ ''.''))
      else if contains ''standard deviation'' prompt \<or> contains ''std dev'' prompt then
        (case float_column E df column of Inl e \<Rightarrow> Inl e | Inr xs \<Rightarrow>
           Inr (''The standard deviation of values in column '' @ quoted column @ '' is ''
                @ str_float E (s_std E xs) @ ''.''))
      else if contains ''variance'' prompt then
        (case float_column E df column of Inl e \<Rightarrow> Inl e | Inr xs \<Rightarrow>
           Inr (''The variance of values in column '' @ quoted column @ '' is ''
                @ str_float E (s_var E xs) @ ''.''))
      else Inr unsupported)"

text \<open>
  The body of the \<^verbatim>\<open>try\<close> block: lines 44 and 45 load the language model and parse the
  prompt as it was typed; the parse result is dropped and the cascade follows.
\<close>

definition extract_info_try :: "('c, 'f) env \<Rightarrow> 'c table \<Rightarrow> string \<Rightarrow> string \<Rightarrow> string py" where
  "extract_info_try E df column prompt =
     (case spacy_load E ''en_core_web_sm'' of
        Some e \<Rightarrow> Inl e
      | None \<Rightarrow>
          (case nlp_call E prompt of
             Some e \<Rightarrow> Inl e
           | None \<Rightarrow> extract_info_cascade E df column prompt))"

text \<open>
  \<^verbatim>\<open>except Exception as e: return f"Error: {e}"\<close>: what the caller receives for each
  outcome of a \<^verbatim>\<open>try\<close> body.
\<close>

fun report :: "string py \<Rightarrow> string" where
  "report (Inl e) = ''Error: '' @ e"
| "report (Inr s) = s"

definition extract_info :: "('c, 'f) env \<Rightarrow> 'c table \<Rightarrow> string \<Rightarrow> string \<Rightarrow> string" where
  "extract_info E df column prompt = report (extract_info_try E df column prompt)"

text \<open>The same function with lines 44 and 45 removed.\<close>

definition extract_info_without_parse ::
    "('c, 'f) env \<Rightarrow> 'c table \<Rightarrow> string \<Rightarrow> string \<Rightarrow> string" where
  "extract_info_without_parse E df column prompt = report (extract_info_cascade E df column prompt)"

text \<open>The parse step returns normally on a prompt.\<close>

definition parse_ok :: "('c, 'f) env \<Rightarrow> string \<Rightarrow> bool" where
  "parse_ok E prompt \<longleftrightarrow> spacy_load E ''en_core_web_sm'' = None \<and> nlp_call E prompt = None"

subsection \<open>The specification's reading of the cascade\<close>

text \<open>
  The specification describes the cascade as an ordered list of keyword families, each
  mapped to one operation, where the first family with a trigger in the lower-cased
  prompt wins. The definitions below follow those words; the lemmas of the next section
  relate them to the source.
\<close>

datatype stat = Minimum | Maximum | Average | Sum | Count | Median | StdDev | Variance

fun triggers :: "stat \<Rightarrow> string list" where
  "triggers Minimum = [''minimum'', ''lowest'']"
| "triggers Maximum = [''maximum'', ''highest'']"
| "triggers Average = [''average'', ''mean'']"
| "triggers Sum = [''sum'', ''total'']"
| "triggers Count = [''count'', ''number of'']"
| "triggers Median = [''median'']"
| "triggers StdDev = [''standard deviation'', ''std dev'']"
| "triggers Variance = [''variance'']"

text \<open>The position of a family in the fixed order.\<close>

fun rank :: "stat \<Rightarrow> nat" where
  "rank Minimum = 0"
| "rank Maximum = 1"
| "rank Average = 2"
| "rank Sum = 3"
| "rank Count = 4"
| "rank Median = 5"
| "rank StdDev = 6"
| "rank Variance = 7"

definition families :: "stat list" where
  "families = [Minimum, Maximum, Average, Sum, Count, Median, StdDev, Variance]"

definition matches :: "stat \<Rightarrow> string \<Rightarrow> bool" where
  "matches st p = list_ex (\<lambda>k. contains k p) (triggers st)"

definition first_match :: "string \<Rightarrow> stat option" where
  "first_match p = find (\<lambda>st. matches st p) families"

text \<open>The words between \<^verbatim>\<open>The\<close> and \<^verbatim>\<open>in column\<close> in each branch's result.\<close>

fun label :: "stat \<Rightarrow> string" where
  "label Minimum = ''minimum value''"
| "label Maximum = ''maximum value''"
| "label Average = ''average value''"
| "label Sum = ''sum of values''"
| "label Count = ''count of values''"
| "label Median = ''median value''"
| "label StdDev = ''standard deviation of values''"
| "label Variance = ''variance of values''"

text \<open>The reduction a family applies to the float column; the count family has none.\<close>

fun reduction :: "('c, 'f) env \<Rightarrow> stat \<Rightarrow> ('f list \<Rightarrow> 'f) option" where
  "reduction E Minimum = Some (s_min E)"
| "reduction E Maximum = Some (s_max E)"
| "reduction E Average = Some (s_mean E)"
| "reduction E Sum = Some (s_sum E)"
| "reduction E Count = None"
| "reduction E Median = Some (s_median E)"
| "reduction E StdDev = Some (s_std E)"
| "reduction E Variance = Some (s_var E)"

text \<open>The printed value of a statistic over the cells of a column.\<close>

definition stat_value :: "('c, 'f) env \<Rightarrow> stat \<Rightarrow> 'c list \<Rightarrow> string py" where
  "stat_value E st cells =
     (case reduction E st of
        None \<Rightarrow> Inr (str_nat (count_notna E cells))
      | Some f \<Rightarrow>
          (case astype_float E cells of
             Inl e \<Rightarrow> Inl e
           | Inr xs \<Rightarrow> Inr (str_float E (f xs))))"

definition render :: "stat \<Rightarrow> string \<Rightarrow> string \<Rightarrow> string" where
  "render st column v =
     ''The '' @ label st @ '' in column '' @ quoted column @ '' is '' @ v @ ''.''"

text \<open>What one family does with a table and a column label.\<close>

definition outcome :: "('c, 'f) env \<Rightarrow> 'c table \<Rightarrow> string \<Rightarrow> stat \<Rightarrow> string py" where
  "outcome E df column st =
     (case df column of
        None \<Rightarrow> Inl (key_error E column)
      | Some cells \<Rightarrow>
          (case stat_value E st cells of
             Inl e \<Rightarrow> Inl e
           | Inr v \<Rightarrow> Inr (render st column v)))"

subsection \<open>Case variants of an ASCII prompt\<close>

definition upper_char :: "char \<Rightarrow> char" where
  "upper_char c =
     (case map_of (zip ''abcdefghijklmnopqrstuvwxyz'' ''ABCDEFGHIJKLMNOPQRSTUVWXYZ'') c of
        Some d \<Rightarrow> d
      | None \<Rightarrow> c)"

text \<open>Two bytes are the same ASCII letter up to case, or the same byte.\<close>

definition same_letter :: "char \<Rightarrow> char \<Rightarrow> bool" where
  "same_letter a b \<longleftrightarrow> b = a \<or> b = upper_char a \<or> b = lower_char a"

definition case_variant :: "string \<Rightarrow> string \<Rightarrow> bool" where
  "case_variant p q \<longleftrightarrow> list_all2 same_letter p q"


section \<open>\<^verbatim>\<open>get_google_sheet\<close>\<close>

text \<open>
  The Sheets client and the pandas constructor are parameters as well.
  \<^item> \<open>values_get spreadsheet_id range_name\<close> stands for building the service and executing
    the \<^verbatim>\<open>values().get(...)\<close> request: it raises, or returns the response's
    \<^verbatim>\<open>'values'\<close> entry, \<open>None\<close> when the response has no such entry.
  \<^item> \<open>new_frame data header\<close> is \<^verbatim>\<open>pd.DataFrame(data, columns=header)\<close>.
  The function reports through \<^verbatim>\<open>st.error\<close> and returns a table or \<^verbatim>\<open>None\<close>; the model
  returns the messages passed to \<^verbatim>\<open>st.error\<close>, in order, together with the result.
\<close>

type_synonym grid = "string list list"

record 'df sheets =
  values_get :: "string \<Rightarrow> string \<Rightarrow> grid option py"
  new_frame :: "grid \<Rightarrow> string list \<Rightarrow> 'df py"

definition get_google_sheet :: "'df sheets \<Rightarrow> string \<Rightarrow> string \<Rightarrow> string list \<times> 'df option" where
  "get_google_sheet S spreadsheet_id range_name =
     (case values_get S spreadsheet_id range_name of
        Inl e \<Rightarrow> ([''Error connecting to Google Sheets: '' @ e], None)
      | Inr result \<Rightarrow>
          (let values = (case result of None \<Rightarrow> [] | Some v \<Rightarrow> v) in
           case values of
             [] \<Rightarrow> ([''No data found.''], None)
           | header # data \<Rightarrow>
               (case new_frame S data header of
                  Inl e \<Rightarrow> ([''Error connecting to Google Sheets: '' @ e], None)
                | Inr df \<Rightarrow> ([], Some df))))"

section \<open>A concrete environment\<close>

text \<open>
  The closed examples below need an environment to run in. This one has string cells
  (\<open>None\<close> for a missing cell) and does the arithmetic exactly, on rationals. It agrees
  with pandas on columns of short unsigned decimal literals whose statistic is an
  integer, where double arithmetic is exact too, and with \<^verbatim>\<open>str.lower()\<close> on text whose
  only upper-case letters are ASCII; every example stays inside that range.
  Outside it the environment is only an instance of the interface: literals of any
  other shape are rejected, and a value it cannot print exactly is shown as a
  placeholder.
\<close>

datatype dfloat = Num rat | NaN | Inexact

fun nums :: "dfloat list \<Rightarrow> rat list" where
  "nums [] = []"
| "nums (Num r # xs) = r # nums xs"
| "nums (x # xs) = nums xs"

definition is_digit :: "char \<Rightarrow> bool" where
  "is_digit c \<longleftrightarrow> c \<in> set ''0123456789''"

definition digit_val :: "char \<Rightarrow> nat" where
  "digit_val c = length (takeWhile (\<lambda>d. d \<noteq> c) ''0123456789'')"

definition nat_of_digits :: "string \<Rightarrow> nat" where
  "nat_of_digits s = foldl (\<lambda>n c. 10 * n + digit_val c) 0 s"

definition demo_float :: "string option \<Rightarrow> dfloat py" where
  "demo_float cell =
     (case cell of
        None \<Rightarrow> Inr NaN
      | Some s \<Rightarrow>
          if s \<noteq> [] \<and> list_all is_digit s then Inr (Num (of_nat (nat_of_digits s)))
          else Inl (''could not convert string to float: '' @ quoted s))"

fun demo_astype :: "string option list \<Rightarrow> dfloat list py" where
  "demo_astype [] = Inr []"
| "demo_astype (c # cs) =
     (case demo_float c of
        Inl e \<Rightarrow> Inl e
      | Inr x \<Rightarrow> (case demo_astype cs of Inl e \<Rightarrow> Inl e | Inr xs \<Rightarrow> Inr (x # xs)))"

definition demo_min :: "dfloat list \<Rightarrow> dfloat" where
  "demo_min xs = (case nums xs of [] \<Rightarrow> NaN | v # vs \<Rightarrow> Num (fold min vs v))"

definition demo_max :: "dfloat list \<Rightarrow> dfloat" where
  "demo_max xs = (case nums xs of [] \<Rightarrow> NaN | v # vs \<Rightarrow> Num (fold max vs v))"

definition demo_sum :: "dfloat list \<Rightarrow> dfloat" where
  "demo_sum xs = Num (sum_list (nums xs))"

definition demo_mean :: "dfloat list \<Rightarrow> dfloat" where
  "demo_mean xs =
     (let vs = nums xs in
      if vs = [] then NaN else Num (sum_list vs / of_nat (length vs)))"

definition demo_median :: "dfloat list \<Rightarrow> dfloat" where
  "demo_median xs =
     (let vs = sort (nums xs); n = length vs in
      if n = 0 then NaN
      else if odd n then Num (vs ! (n div 2))
      else Num ((vs ! (n div 2 - 1) + vs ! (n div 2)) / 2))"

definition demo_var :: "dfloat list \<Rightarrow> dfloat" where
  "demo_var xs =
     (let vs = nums xs; n = length vs in
      if n < 2 then NaN
      else let m = sum_list vs / of_nat n in
           Num (sum_list (map (\<lambda>v. (v - m) * (v - m)) vs) / of_nat (n - 1)))"

definition exact_root :: "rat \<Rightarrow> rat option" where
  "exact_root v =
     (if v < 0 \<or> of_int \<lfloor>v\<rfloor> \<noteq> v then None
      else map_option of_nat (find (\<lambda>k. k * k = nat \<lfloor>v\<rfloor>) [0 ..< Suc (nat \<lfloor>v\<rfloor>)]))"

definition demo_std :: "dfloat list \<Rightarrow> dfloat" where
  "demo_std xs =
     (case demo_var xs of
        Num v \<Rightarrow> (case exact_root v of Some r \<Rightarrow> Num r | None \<Rightarrow> Inexact)
      | x \<Rightarrow> x)"

definition demo_str :: "dfloat \<Rightarrow> string" where
  "demo_str x =
     (case x of
        NaN \<Rightarrow> ''nan''
      | Inexact \<Rightarrow> ''<inexact>''
      | Num r \<Rightarrow>
          if of_int \<lfloor>r\<rfloor> = r \<and> \<bar>r\<bar> < 10 ^ 16
          then (if r < 0 then ''-'' else []) @ str_nat (nat \<bar>\<lfloor>r\<rfloor>\<bar>) @ ''.0''
          else ''<inexact>'')"

definition demo_env :: "(string option, dfloat) env" where
  "demo_env =
     \<lparr> str_lower = ascii_lower,
       spacy_load = (\<lambda>name. None),
       nlp_call = (\<lambda>text. None),
       key_error = quoted,
       notna = (\<lambda>cell. cell \<noteq> None),
       astype_float = demo_astype,
       s_min = demo_min,
       s_max = demo_max,
       s_mean = demo_mean,
       s_sum = demo_sum,
       s_median = demo_median,
       s_std = demo_std,
       s_var = demo_var,
       str_float = demo_str \<rparr>"

text \<open>The same environment on a machine where the language model is not installed.\<close>

definition no_model_env :: "(string option, dfloat) env" where
  "no_model_env =
     demo_env \<lparr> spacy_load := (\<lambda>name. Some (''[E050] Can't find model '' @ quoted name
         @ ''. It doesn't seem to be a Python package or a valid path to a data directory.'')) \<rparr>"

text \<open>
  A prompt outside ASCII: the letter long s (U+017F, encoded as the bytes \<open>C5 BF\<close>)
  followed by \<^verbatim>\<open>um\<close>. Long s is a lower-case letter, so \<^verbatim>\<open>str.lower()\<close> leaves the prompt
  as it is; its upper-case form is the ASCII letter \<^verbatim>\<open>S\<close>.
\<close>

definition long_s_um :: string where
  "long_s_um = [CHR 0xC5, CHR 0xBF] @ ''um''"

text \<open>
  \<^verbatim>\<open>str.upper()\<close> on the text of the examples: ASCII letters, long s and dotless i
  (U+0131, encoded as \<open>C4 B1\<close>), whose upper-case forms are \<^verbatim>\<open>S\<close> and \<^verbatim>\<open>I\<close>.
\<close>

fun demo_upper :: "string \<Rightarrow> string" where
  "demo_upper [] = []"
| "demo_upper [a] = [upper_char a]"
| "demo_upper (a # b # cs) =
     (if a = CHR 0xC5 \<and> b = CHR 0xBF then CHR ''S'' # demo_upper cs
      else if a = CHR 0xC4 \<and> b = CHR 0xB1 then CHR ''I'' # demo_upper cs
      else upper_char a # demo_upper (b # cs))"

text \<open>The table \<^verbatim>\<open>{"Age": ["10", "20", "30"]}\<close>.\<close>

definition age_table :: "string option table" where
  "age_table = [''Age'' \<mapsto> [Some ''10'', Some ''20'', Some ''30'']]"

text \<open>A table whose only column holds text.\<close>

definition names_table :: "string option table" where
  "names_table = [''Name'' \<mapsto> [Some ''abc'', None, Some ''x'']]"

text \<open>
  A frame as \<^verbatim>\<open>pd.DataFrame(data, columns=header)\<close> builds it from rows of strings: the
  labels and the rows, short rows filled with \<open>None\<close>. The constructor raises when the
  widest row and the header differ in length; with no rows at all it returns the empty
  frame that carries the labels.
\<close>

record frame =
  columns :: "string list"
  rows :: "string option list list"

definition demo_frame :: "grid \<Rightarrow> string list \<Rightarrow> frame py" where
  "demo_frame data header =
     (if data = [] then Inr \<lparr> columns = header, rows = [] \<rparr>
      else let w = fold max (map length data) 0 in
           if w \<noteq> length header
           then Inl (str_nat (length header) @ '' columns passed, passed data had ''
                     @ str_nat w @ '' columns'')
           else Inr \<lparr> columns = header,
                      rows = map (\<lambda>r. map Some r @ replicate (w - length r) None) data \<rparr>)"

text \<open>A Sheets client that answers every request with the same grid.\<close>

definition demo_sheets :: "grid option \<Rightarrow> frame sheets" where
  "demo_sheets answer = \<lparr> values_get = (\<lambda>spreadsheet_id range_name. Inr answer),
                          new_frame = demo_frame \<rparr>"

section \<open>The cascade and its specification\<close>

subsection \<open>Strings\<close>

lemma contains_iff: "contains sub s \<longleftrightarrow> (\<exists>pre post. s = pre @ sub @ post)"
proof (induction s)
  case Nil
  then show ?case by auto
next
  case (Cons c cs)
  have "(\<exists>pre post. c # cs = pre @ sub @ post) \<longleftrightarrow>
        prefix sub (c # cs) \<or> (\<exists>pre post. cs = pre @ sub @ post)"
    (is "?L \<longleftrightarrow> ?R")
  proof
    assume ?L
    then obtain pre post where eq: "c # cs = pre @ sub @ post" by blast
    show ?R
    proof (cases pre)
      case Nil
      with eq show ?thesis by (auto simp: prefix_def)
    next
      case (Cons a pre')
      with eq have "cs = pre' @ sub @ post" by simp
      then show ?thesis by blast
    qed
  next
    assume ?R
    then show ?L
    proof
      assume "prefix sub (c # cs)"
      then obtain post where "c # cs = sub @ post" by (auto simp: prefix_def)
      then have "c # cs = [] @ sub @ post" by simp
      then show ?L by blast
    next
      assume "\<exists>pre post. cs = pre @ sub @ post"
      then obtain pre post where "cs = pre @ sub @ post" by blast
      then have "c # cs = (c # pre) @ sub @ post" by simp
      then show ?L by blast
    qed
  qed
  with Cons.IH show ?case by simp
qed

lemma lower_char_idem: "lower_char (lower_char c) = lower_char c"
  unfolding lower_char_def by (simp split: if_splits)

lemma lower_upper_char: "lower_char (upper_char c) = lower_char c"
  unfolding lower_char_def upper_char_def by (simp split: if_splits)

lemma same_letter_lower: "same_letter a b \<Longrightarrow> lower_char b = lower_char a"
  by (auto simp: same_letter_def lower_char_idem lower_upper_char)

lemma case_variant_lower: "case_variant p q \<Longrightarrow> ascii_lower q = ascii_lower p"
  unfolding case_variant_def ascii_lower_def
  by (induction p q rule: list_all2_induct) (simp_all add: same_letter_lower)

subsection \<open>Each branch of the source is the outcome of its family\<close>

lemma outcome_Minimum:
  "outcome E df column Minimum =
     (case float_column E df column of Inl e \<Rightarrow> Inl e | Inr xs \<Rightarrow>
        Inr (''The minimum value in column '' @ quoted column @ '' is ''
             @ str_float E (s_min E xs) @ ''.''))"
  by (simp add: outcome_def getitem_def float_column_def stat_value_def render_def
      split: option.split sum.split)

lemma outcome_Maximum:
  "outcome E df column Maximum =
     (case float_column E df column of Inl e \<Rightarrow> Inl e | Inr xs \<Rightarrow>
        Inr (''The maximum value in column '' @ quoted column @ '' is ''
             @ str_float E (s_max E xs) @ ''.''))"
  by (simp add: outcome_def getitem_def float_column_def stat_value_def render_def
      split: option.split sum.split)

lemma outcome_Average:
  "outcome E df column Average =
     (case float_column E df column of Inl e \<Rightarrow> Inl e | Inr xs \<Rightarrow>
        Inr (''The average value in column '' @ quoted column @ '' is ''
             @ str_float E (s_mean E xs) @ ''.''))"
  by (simp add: outcome_def getitem_def float_column_def stat_value_def render_def
      split: option.split sum.split)

lemma outcome_Sum:
  "outcome E df column Sum =
     (case float_column E df column of Inl e \<Rightarrow> Inl e | Inr xs \<Rightarrow>
        Inr (''The sum of values in column '' @ quoted column @ '' is ''
             @ str_float E (s_sum E xs) @ ''.''))"
  by (simp add: outcome_def getitem_def float_column_def stat_value_def render_def
      split: option.split sum.split)

lemma outcome_Count:
  "outcome E df column Count =
     (case getitem E df column of Inl e \<Rightarrow> Inl e | Inr cells \<Rightarrow>
        Inr (''The count of values in column '' @ quoted column @ '' is ''
             @ str_nat (count_notna E cells) @ ''.''))"
  by (simp add: outcome_def getitem_def stat_value_def render_def split: option.split)

lemma outcome_Median:
  "outcome E df column Median =
     (case float_column E df column of Inl e \<Rightarrow> Inl e | Inr xs \<Rightarrow>
        Inr (''The median value in column '' @ quoted column @ '' is ''
             @ str_float E (s_median E xs) @ ''.''))"
  by (simp add: outcome_def getitem_def float_column_def stat_value_def render_def
      split: option.split sum.split)

lemma outcome_StdDev:
  "outcome E df column StdDev =
     (case float_column E df column of Inl e \<Rightarrow> Inl e | Inr xs \<Rightarrow>
        Inr (''The standard deviation of values in column '' @ quoted column @ '' is ''
             @ str_float E (s_std E xs) @ ''.''))"
  by (simp add: outcome_def getitem_def float_column_def stat_value_def render_def
      split: option.split sum.split)

lemma outcome_Variance:
  "outcome E df column Variance =
     (case float_column E df column of Inl e \<Rightarrow> Inl e | Inr xs \<Rightarrow>
        Inr (''The variance of values in column '' @ quoted column @ '' is ''
             @ str_float E (s_var E xs) @ ''.''))"
  by (simp add: outcome_def getitem_def float_column_def stat_value_def render_def
      split: option.split sum.split)

lemmas outcome_branch =
  outcome_Minimum outcome_Maximum outcome_Average outcome_Sum
  outcome_Count outcome_Median outcome_StdDev outcome_Variance

subsection \<open>The chain of tests is a search through the ordered families\<close>

lemma first_match_chain:
  "first_match p =
     (if contains ''minimum'' p \<or> contains ''lowest'' p then Some Minimum
      else if contains ''maximum'' p \<or> contains ''highest'' p then Some Maximum
      else if contains ''average'' p \<or> contains ''mean'' p then Some Average
      else if contains ''sum'' p \<or> contains ''total'' p then Some Sum
      else if contains ''count'' p \<or> contains ''number of'' p then Some Count
      else if contains ''median'' p then Some Median
      else if contains ''standard deviation'' p \<or> contains ''std dev'' p then Some StdDev
      else if contains ''variance'' p then Some Variance
      else None)"
  unfolding first_match_def families_def matches_def
  by (simp del: contains.simps)

lemma cascade_dispatch:
  "extract_info_cascade E df column prompt =
     (case first_match (str_lower E prompt) of
        None \<Rightarrow> Inr unsupported
      | Some st \<Rightarrow> outcome E df column st)"
  unfolding extract_info_cascade_def first_match_chain Let_def
  by (simp only: option.case outcome_branch if_distrib [of "case_option _ _"] cong: if_cong)

lemma try_parse_ok:
  "parse_ok E prompt \<Longrightarrow> extract_info_try E df column prompt = extract_info_cascade E df column prompt"
  by (simp add: extract_info_try_def parse_ok_def)

lemma extract_info_dispatch:
  "parse_ok E prompt \<Longrightarrow>
   extract_info E df column prompt =
     report (case first_match (str_lower E prompt) of
               None \<Rightarrow> Inr unsupported
             | Some st \<Rightarrow> outcome E df column st)"
  by (simp only: extract_info_def try_parse_ok cascade_dispatch)

lemma first_match_SomeI:
  assumes "matches st p" and "\<forall>st'. rank st' < rank st \<longrightarrow> \<not> matches st' p"
  shows "first_match p = Some st"
proof -
  have earlier: "\<not> matches st' p" if "rank st' < rank st" for st'
    using assms(2) that by blast
  show ?thesis
    using assms(1) earlier
    by (cases st) (simp_all add: first_match_def families_def)
qed

lemma first_match_SomeD:
  assumes "first_match p = Some st"
  shows "matches st p \<and> (\<forall>st'. rank st' < rank st \<longrightarrow> \<not> matches st' p)"
proof -
  have "matches st p"
    using assms by (auto simp: first_match_def families_def split: if_splits)
  moreover have "\<not> matches st' p" if "rank st' < rank st" for st'
    using assms that
    by (cases st'; cases st) (auto simp: first_match_def families_def split: if_splits)
  ultimately show ?thesis by blast
qed

lemma first_match_None: "first_match p = None \<longleftrightarrow> (\<forall>st. \<not> matches st p)"
proof
  assume none: "first_match p = None"
  show "\<forall>st. \<not> matches st p"
  proof
    fix st
    show "\<not> matches st p"
      using none by (cases st) (auto simp: first_match_def families_def split: if_splits)
  qed
next
  assume "\<forall>st. \<not> matches st p"
  then show "first_match p = None"
    by (simp add: first_match_def families_def)
qed

lemma report_outcome_neq_unsupported: "report (outcome E df column st) \<noteq> unsupported"
  by (auto simp: outcome_def render_def unsupported_def split: option.splits sum.splits)


section \<open>Claims\<close>

subsection \<open>C2: the wording of a result\<close>

text \<open>
  C2, as the code has it. Whenever the parse step returns, the selected column exists
  and the statistic of the first matching family is computed and printed as \<open>v\<close>, the
  result is exactly \<^verbatim>\<open>The <label> in column '<column>' is <v>.\<close>, where the label is
  \<^verbatim>\<open>minimum value\<close>, \<^verbatim>\<open>maximum value\<close>, \<^verbatim>\<open>average value\<close> or \<^verbatim>\<open>median value\<close>
  for those four families and \<^verbatim>\<open>sum of values\<close>, \<^verbatim>\<open>standard deviation of values\<close>,
  \<^verbatim>\<open>variance of values\<close> or \<^verbatim>\<open>count of values\<close> for the other four.
\<close>

theorem C2_result_wording:
  assumes "parse_ok E prompt"
    and "first_match (str_lower E prompt) = Some st"
    and "df column = Some cells"
    and "stat_value E st cells = Inr v"
  shows "extract_info E df column prompt =
           ''The '' @ label st @ '' in column '' @ quoted column @ '' is '' @ v @ ''.''"
  using assms by (simp add: extract_info_dispatch outcome_def render_def)

text \<open>
  C2 on the table \<^verbatim>\<open>{"Age": ["10", "20", "30"]}\<close> with the prompt
  \<^verbatim>\<open>What is the average?\<close>: the result is \<^verbatim>\<open>The average value in column 'Age' is 20.0.\<close>
\<close>

theorem C2_result_wording_witness:
  "parse_ok demo_env ''What is the average?''
   \<and> first_match (str_lower demo_env ''What is the average?'') = Some Average
   \<and> age_table ''Age'' = Some [Some ''10'', Some ''20'', Some ''30'']
   \<and> stat_value demo_env Average [Some ''10'', Some ''20'', Some ''30''] = Inr ''20.0''
   \<and> extract_info demo_env age_table ''Age'' ''What is the average?''
       = ''The average value in column 'Age' is 20.0.''"
proof -
  have h1: "parse_ok demo_env ''What is the average?''"
    by (simp add: parse_ok_def demo_env_def)
  have h2: "first_match (str_lower demo_env ''What is the average?'') = Some Average"
    by code_simp
  have h3: "age_table ''Age'' = Some [Some ''10'', Some ''20'', Some ''30'']"
    by (simp add: age_table_def)
  have h4: "stat_value demo_env Average [Some ''10'', Some ''20'', Some ''30''] = Inr ''20.0''"
    by code_simp
  have "extract_info demo_env age_table ''Age'' ''What is the average?''
          = ''The '' @ label Average @ '' in column '' @ quoted ''Age'' @ '' is '' @ ''20.0'' @ ''.''"
    by (rule C2_result_wording [where df = age_table and column = "''Age''", OF h1 h2 h3 h4])
  then have "extract_info demo_env age_table ''Age'' ''What is the average?''
          = ''The average value in column 'Age' is 20.0.''"
    by (simp add: quoted_def)
  with h1 h2 h3 h4 show ?thesis by blast
qed

text \<open>
  C2 as the specification words it fails for the sum family (and likewise for standard
  deviation and variance): on the same table the prompt \<^verbatim>\<open>What is the sum?\<close> yields
  \<^verbatim>\<open>The sum of values in column 'Age' is 60.0.\<close>, not \<^verbatim>\<open>The sum value in column ...\<close>
\<close>

theorem C2_sum_wording_counterexample:
  "extract_info demo_env age_table ''Age'' ''What is the sum?''
     = ''The sum of values in column 'Age' is 60.0.''
   \<and> extract_info demo_env age_table ''Age'' ''What is the sum?''
     \<noteq> ''The sum value in column 'Age' is 60.0.''"
  by code_simp


subsection \<open>C3: a sheet without data\<close>

text \<open>
  C3, as the code has it. When the request returns and the grid has no row at all (the
  response has no \<^verbatim>\<open>'values'\<close> entry, or an empty one), \<open>get_google_sheet\<close> reports
  \<^verbatim>\<open>No data found.\<close> and returns \<^verbatim>\<open>None\<close>; the message differs from every message of a
  failed request. When the grid consists of a header row only, the function builds the
  frame from that header and no rows, reports nothing and returns the frame.
\<close>

theorem C3_no_data_signal:
  "((values_get S spreadsheet_id range_name = Inr None
       \<or> values_get S spreadsheet_id range_name = Inr (Some []))
      \<longrightarrow> get_google_sheet S spreadsheet_id range_name = ([''No data found.''], None))
   \<and> (values_get S spreadsheet_id range_name = Inr (Some [header])
        \<and> new_frame S [] header = Inr df
      \<longrightarrow> get_google_sheet S spreadsheet_id range_name = ([], Some df))
   \<and> ''No data found.'' \<noteq> ''Error connecting to Google Sheets: '' @ e"
proof (intro conjI impI)
  assume "values_get S spreadsheet_id range_name = Inr None
       \<or> values_get S spreadsheet_id range_name = Inr (Some [])"
  then show "get_google_sheet S spreadsheet_id range_name = ([''No data found.''], None)"
  proof
    assume "values_get S spreadsheet_id range_name = Inr None"
    then show ?thesis by (simp add: get_google_sheet_def)
  next
    assume "values_get S spreadsheet_id range_name = Inr (Some [])"
    then show ?thesis by (simp add: get_google_sheet_def)
  qed
next
  assume "values_get S spreadsheet_id range_name = Inr (Some [header])
        \<and> new_frame S [] header = Inr df"
  then show "get_google_sheet S spreadsheet_id range_name = ([], Some df)"
    by (simp add: get_google_sheet_def)
next
  show "''No data found.'' \<noteq> ''Error connecting to Google Sheets: '' @ e"
    by simp
qed

text \<open>
  C3 for a response with an empty grid, a response without a grid, and a grid that
  holds the header \<^verbatim>\<open>Age\<close> alone.
\<close>

theorem C3_no_data_signal_witness:
  "values_get (demo_sheets (Some [])) ''sheet-id'' ''Sheet1!A1:D10'' = Inr (Some [])
   \<and> get_google_sheet (demo_sheets (Some [])) ''sheet-id'' ''Sheet1!A1:D10''
       = ([''No data found.''], None)
   \<and> values_get (demo_sheets None) ''sheet-id'' ''Sheet1!A1:D10'' = Inr None
   \<and> get_google_sheet (demo_sheets None) ''sheet-id'' ''Sheet1!A1:D10''
       = ([''No data found.''], None)
   \<and> values_get (demo_sheets (Some [[''Age'']])) ''sheet-id'' ''Sheet1!A1:D10''
       = Inr (Some [[''Age'']])
   \<and> new_frame (demo_sheets (Some [[''Age'']])) [] [''Age'']
       = Inr \<lparr> columns = [''Age''], rows = [] \<rparr>
   \<and> get_google_sheet (demo_sheets (Some [[''Age'']])) ''sheet-id'' ''Sheet1!A1:D10''
       = ([], Some \<lparr> columns = [''Age''], rows = [] \<rparr>)"
proof -
  let ?id = "''sheet-id''" and ?rng = "''Sheet1!A1:D10''"
  have v0: "values_get (demo_sheets (Some [])) ?id ?rng = Inr (Some [])"
    and vn: "values_get (demo_sheets None) ?id ?rng = Inr None"
    and vh: "values_get (demo_sheets (Some [[''Age'']])) ?id ?rng = Inr (Some [[''Age'']])"
    by (simp_all add: demo_sheets_def)
  have fr: "new_frame (demo_sheets (Some [[''Age'']])) [] [''Age'']
              = Inr \<lparr> columns = [''Age''], rows = [] \<rparr>"
    by (simp add: demo_sheets_def demo_frame_def)
  have r0: "get_google_sheet (demo_sheets (Some [])) ?id ?rng = ([''No data found.''], None)"
    using C3_no_data_signal [where S = "demo_sheets (Some [])" and spreadsheet_id = ?id
        and range_name = ?rng] v0
    by blast
  have rn: "get_google_sheet (demo_sheets None) ?id ?rng = ([''No data found.''], None)"
    using C3_no_data_signal [where S = "demo_sheets None" and spreadsheet_id = ?id
        and range_name = ?rng] vn
    by blast
  have rh: "get_google_sheet (demo_sheets (Some [[''Age'']])) ?id ?rng
              = ([], Some \<lparr> columns = [''Age''], rows = [] \<rparr>)"
    using C3_no_data_signal [where S = "demo_sheets (Some [[''Age'']])" and spreadsheet_id = ?id
        and range_name = ?rng and header = "[''Age'']"] vh fr
    by blast
  from v0 vn vh fr r0 rn rh show ?thesis by blast
qed

text \<open>
  C3 as the specification words it fails on the header-only grid: the result is an
  ordinary table with the column \<^verbatim>\<open>Age\<close> and no rows, and nothing is reported.
\<close>

theorem C3_header_only_counterexample:
  "get_google_sheet (demo_sheets (Some [[''Age'']])) ''sheet-id'' ''Sheet1!A1:D10''
     = ([], Some \<lparr> columns = [''Age''], rows = [] \<rparr>)
   \<and> get_google_sheet (demo_sheets (Some [[''Age'']])) ''sheet-id'' ''Sheet1!A1:D10''
     \<noteq> ([''No data found.''], None)"
  by (simp add: get_google_sheet_def demo_sheets_def demo_frame_def)

subsection \<open>C4: the first family in the fixed order wins\<close>

text \<open>
  C4, as the code has it. The families are tried in the order minimum, maximum, average,
  sum, count, median, standard deviation, variance (\<open>rank\<close>). Whenever the parse step
  returns and a family matches the lower-cased prompt while no family of lower rank
  does, the result is the outcome of that family alone, whatever families of higher
  rank match as well. The prompt \<^verbatim>\<open>Get the total average\<close>, lower-cased as ASCII text,
  holds triggers of the average and of the sum family, and whenever the parse step
  returns on it, it is answered by the average branch.
\<close>

theorem C4_first_family_wins:
  "(parse_ok E prompt \<and> matches st (str_lower E prompt)
      \<and> (\<forall>st'. rank st' < rank st \<longrightarrow> \<not> matches st' (str_lower E prompt))
    \<longrightarrow> extract_info E df column prompt = report (outcome E df column st))
   \<and> matches Average (ascii_lower ''Get the total average'')
   \<and> matches Sum (ascii_lower ''Get the total average'')
   \<and> (parse_ok E ''Get the total average''
        \<and> str_lower E ''Get the total average'' = ascii_lower ''Get the total average''
    \<longrightarrow> extract_info E df column ''Get the total average'' = report (outcome E df column Average))"
proof (intro conjI impI)
  assume a: "parse_ok E prompt \<and> matches st (str_lower E prompt)
      \<and> (\<forall>st'. rank st' < rank st \<longrightarrow> \<not> matches st' (str_lower E prompt))"
  then have "first_match (str_lower E prompt) = Some st"
    by (intro first_match_SomeI) simp_all
  with a show "extract_info E df column prompt = report (outcome E df column st)"
    by (simp add: extract_info_dispatch)
next
  show "matches Average (ascii_lower ''Get the total average'')" by code_simp
next
  show "matches Sum (ascii_lower ''Get the total average'')" by code_simp
next
  assume ok: "parse_ok E ''Get the total average''
        \<and> str_lower E ''Get the total average'' = ascii_lower ''Get the total average''"
  have "first_match (ascii_lower ''Get the total average'') = Some Average" by code_simp
  with ok show "extract_info E df column ''Get the total average'' = report (outcome E df column Average)"
    by (simp only: extract_info_dispatch option.case)
qed

text \<open>
  C4 on the table \<^verbatim>\<open>{"Age": ["10", "20", "30"]}\<close>: \<^verbatim>\<open>Get the total average\<close> yields the
  average, 20.0, not the sum.
\<close>

theorem C4_first_family_wins_witness:
  "parse_ok demo_env ''Get the total average''
   \<and> str_lower demo_env ''Get the total average'' = ascii_lower ''Get the total average''
   \<and> matches Average (str_lower demo_env ''Get the total average'')
   \<and> matches Sum (str_lower demo_env ''Get the total average'')
   \<and> \<not> matches Minimum (str_lower demo_env ''Get the total average'')
   \<and> \<not> matches Maximum (str_lower demo_env ''Get the total average'')
   \<and> extract_info demo_env age_table ''Age'' ''Get the total average''
       = ''The average value in column 'Age' is 20.0.''"
proof -
  let ?p = "''Get the total average''"
  have ok: "parse_ok demo_env ?p"
    by (simp add: parse_ok_def demo_env_def)
  have avg: "matches Average (str_lower demo_env ?p)" and sum: "matches Sum (str_lower demo_env ?p)"
    and nmin: "\<not> matches Minimum (str_lower demo_env ?p)" and nmax: "\<not> matches Maximum (str_lower demo_env ?p)"
    by code_simp+
  have first: "\<forall>st'. rank st' < rank Average \<longrightarrow> \<not> matches st' (str_lower demo_env ?p)"
  proof (intro allI impI)
    fix st' assume "rank st' < rank Average"
    then show "\<not> matches st' (str_lower demo_env ?p)"
      using nmin nmax by (cases st') simp_all
  qed
  have low: "str_lower demo_env ?p = ascii_lower ?p"
    by (simp add: demo_env_def)
  have "extract_info demo_env age_table ''Age'' ?p = report (outcome demo_env age_table ''Age'' Average)"
    using C4_first_family_wins [of demo_env ?p Average age_table "''Age''"] ok avg first by blast
  moreover have "report (outcome demo_env age_table ''Age'' Average)
                   = ''The average value in column 'Age' is 20.0.''"
    by code_simp
  ultimately show ?thesis using ok low avg sum nmin nmax by simp
qed

text \<open>
  C4 as the specification words it, for every prompt, fails where the language model is
  missing: \<^verbatim>\<open>Get the total average\<close> holds triggers of both families and is answered
  with the error of the parse step, not by the average branch.
\<close>

theorem C4_no_model_counterexample:
  "matches Average (str_lower no_model_env ''Get the total average'')
   \<and> matches Sum (str_lower no_model_env ''Get the total average'')
   \<and> extract_info no_model_env age_table ''Age'' ''Get the total average''
       = ''Error: [E050] Can't find model 'en_core_web_sm'. It doesn't seem to be a Python package or a valid path to a data directory.''
   \<and> report (outcome no_model_env age_table ''Age'' Average)
       = ''The average value in column 'Age' is 20.0.''
   \<and> extract_info no_model_env age_table ''Age'' ''Get the total average''
       \<noteq> report (outcome no_model_env age_table ''Age'' Average)"
  by code_simp

subsection \<open>C5: failures come back as error strings\<close>

text \<open>
  C5. \<open>extract_info\<close> returns a string on every input: the \<^verbatim>\<open>except\<close> clause turns
  whatever the \<^verbatim>\<open>try\<close> body raises into \<^verbatim>\<open>Error: \<close> followed by the exception's text.
  In particular, when the prompt selects a family and the column is absent from the
  table the result carries the text of the \<^verbatim>\<open>KeyError\<close>, and when a numeric family is
  selected and the conversion of the column to float raises, the result carries the
  text of that exception.
\<close>

theorem C5_failures_reported:
  "(extract_info_try E df column prompt = Inl m
      \<longrightarrow> extract_info E df column prompt = ''Error: '' @ m)
   \<and> (parse_ok E prompt \<and> first_match (str_lower E prompt) = Some st \<and> df column = None
      \<longrightarrow> extract_info E df column prompt = ''Error: '' @ key_error E column)
   \<and> (parse_ok E prompt \<and> first_match (str_lower E prompt) = Some st \<and> st \<noteq> Count
        \<and> df column = Some cells \<and> astype_float E cells = Inl m
      \<longrightarrow> extract_info E df column prompt = ''Error: '' @ m)"
proof (intro conjI impI)
  assume "extract_info_try E df column prompt = Inl m"
  then show "extract_info E df column prompt = ''Error: '' @ m"
    by (simp add: extract_info_def)
next
  assume "parse_ok E prompt \<and> first_match (str_lower E prompt) = Some st \<and> df column = None"
  then show "extract_info E df column prompt = ''Error: '' @ key_error E column"
    by (simp add: extract_info_dispatch outcome_def)
next
  assume a: "parse_ok E prompt \<and> first_match (str_lower E prompt) = Some st \<and> st \<noteq> Count
        \<and> df column = Some cells \<and> astype_float E cells = Inl m"
  then have "stat_value E st cells = Inl m"
    by (cases st) (simp_all add: stat_value_def)
  with a show "extract_info E df column prompt = ''Error: '' @ m"
    by (simp add: extract_info_dispatch outcome_def)
qed

text \<open>
  C5 on a table whose column \<^verbatim>\<open>Name\<close> holds \<^verbatim>\<open>abc\<close>: asking for the minimum of the
  absent column \<^verbatim>\<open>Age\<close> and of the text column \<^verbatim>\<open>Name\<close>.
\<close>

theorem C5_failures_reported_witness:
  "extract_info_try demo_env names_table ''Name'' ''What is the minimum?''
     = Inl (''could not convert string to float: '' @ quoted ''abc'')
   \<and> parse_ok demo_env ''What is the minimum?''
   \<and> first_match (str_lower demo_env ''What is the minimum?'') = Some Minimum
   \<and> names_table ''Age'' = None
   \<and> extract_info demo_env names_table ''Age'' ''What is the minimum?'' = ''Error: '' @ quoted ''Age''
   \<and> names_table ''Name'' = Some [Some ''abc'', None, Some ''x'']
   \<and> astype_float demo_env [Some ''abc'', None, Some ''x'']
       = Inl (''could not convert string to float: '' @ quoted ''abc'')
   \<and> extract_info demo_env names_table ''Name'' ''What is the minimum?''
       = ''Error: could not convert string to float: '' @ quoted ''abc''"
proof -
  let ?p = "''What is the minimum?''"
  let ?m = "''could not convert string to float: '' @ quoted ''abc''"
  let ?cells = "[Some ''abc'', None, Some ''x'']"
  have t: "extract_info_try demo_env names_table ''Name'' ?p = Inl ?m"
    by code_simp
  have ok: "parse_ok demo_env ?p"
    by (simp add: parse_ok_def demo_env_def)
  have fm: "first_match (str_lower demo_env ?p) = Some Minimum"
    by code_simp
  have absent: "names_table ''Age'' = None"
    by (simp add: names_table_def)
  have present: "names_table ''Name'' = Some ?cells"
    by (simp add: names_table_def)
  have bad: "astype_float demo_env ?cells = Inl ?m"
    by code_simp
  note inst = C5_failures_reported [where E = demo_env and prompt = ?p and st = Minimum and m = ?m]
  have r1: "extract_info demo_env names_table ''Age'' ?p = ''Error: '' @ key_error demo_env ''Age''"
    using inst [where df = names_table and column = "''Age''"] ok fm absent by blast
  have r2: "extract_info demo_env names_table ''Name'' ?p = ''Error: '' @ ?m"
    using inst [where df = names_table and column = "''Name''" and cells = ?cells] ok fm present bad
    by blast
  show ?thesis
    using t ok fm absent present bad r1 r2 by (simp add: demo_env_def quoted_def)
qed

subsection \<open>C6: counting needs no floats\<close>

lemma parse_ok_astype_update [simp]:
  "parse_ok (E\<lparr>astype_float := g\<rparr>) prompt = parse_ok E prompt"
  by (simp add: parse_ok_def)

text \<open>
  C6, as the code has it. Whenever the parse step returns, the count family matches the lower-cased prompt
  and no earlier family does, the result states the number of non-null cells of the
  selected column. The column is never converted to float: replacing \<open>astype_float\<close>
  by any other function, one that always raises included, leaves the result unchanged.
\<close>

theorem C6_count_needs_no_floats:
  assumes "parse_ok E prompt"
    and "matches Count (str_lower E prompt)"
    and "\<forall>st'. rank st' < rank Count \<longrightarrow> \<not> matches st' (str_lower E prompt)"
    and "df column = Some cells"
  shows "extract_info E df column prompt
           = ''The count of values in column '' @ quoted column @ '' is ''
             @ str_nat (length (filter (notna E) cells)) @ ''.''
         \<and> extract_info (E\<lparr>astype_float := g\<rparr>) df column prompt
           = extract_info E df column prompt"
proof -
  have fm: "first_match (str_lower E prompt) = Some Count"
    using assms(2,3) by (rule first_match_SomeI)
  have "extract_info E' df column prompt
           = ''The count of values in column '' @ quoted column @ '' is ''
             @ str_nat (length (filter (notna E') cells)) @ ''.''"
    if "parse_ok E' prompt" and "str_lower E' prompt = str_lower E prompt"
    for E' :: "('a, 'b) env"
    using that fm assms(4)
    by (simp add: extract_info_dispatch outcome_def stat_value_def render_def count_notna_def)
  from this [of E] this [of "E\<lparr>astype_float := g\<rparr>"] assms(1)
  show ?thesis by simp
qed

text \<open>
  C6 on a column that holds text and a missing cell: the conversion to float would
  raise, the count is 2.
\<close>

theorem C6_count_needs_no_floats_witness:
  "parse_ok demo_env ''Count the names''
   \<and> matches Count (str_lower demo_env ''Count the names'')
   \<and> \<not> matches Minimum (str_lower demo_env ''Count the names'')
   \<and> \<not> matches Maximum (str_lower demo_env ''Count the names'')
   \<and> \<not> matches Average (str_lower demo_env ''Count the names'')
   \<and> \<not> matches Sum (str_lower demo_env ''Count the names'')
   \<and> names_table ''Name'' = Some [Some ''abc'', None, Some ''x'']
   \<and> astype_float demo_env [Some ''abc'', None, Some ''x'']
       = Inl (''could not convert string to float: '' @ quoted ''abc'')
   \<and> extract_info demo_env names_table ''Name'' ''Count the names''
       = ''The count of values in column 'Name' is 2.''"
proof -
  let ?p = "''Count the names''"
  let ?cells = "[Some ''abc'', None, Some ''x'']"
  have ok: "parse_ok demo_env ?p"
    by (simp add: parse_ok_def demo_env_def)
  have cnt: "matches Count (str_lower demo_env ?p)"
    and n1: "\<not> matches Minimum (str_lower demo_env ?p)" and n2: "\<not> matches Maximum (str_lower demo_env ?p)"
    and n3: "\<not> matches Average (str_lower demo_env ?p)" and n4: "\<not> matches Sum (str_lower demo_env ?p)"
    by code_simp+
  have first: "\<forall>st'. rank st' < rank Count \<longrightarrow> \<not> matches st' (str_lower demo_env ?p)"
  proof (intro allI impI)
    fix st' assume "rank st' < rank Count"
    then show "\<not> matches st' (str_lower demo_env ?p)"
      using n1 n2 n3 n4 by (cases st') simp_all
  qed
  have present: "names_table ''Name'' = Some ?cells"
    by (simp add: names_table_def)
  have bad: "astype_float demo_env ?cells = Inl (''could not convert string to float: '' @ quoted ''abc'')"
    by code_simp
  have "extract_info demo_env names_table ''Name'' ?p
          = ''The count of values in column '' @ quoted ''Name'' @ '' is ''
            @ str_nat (length (filter (notna demo_env) ?cells)) @ ''.''"
    using C6_count_needs_no_floats [where df = names_table and column = "''Name''", OF ok cnt first present]
    by blast
  moreover have "str_nat (length (filter (notna demo_env) ?cells)) = ''2''"
    by code_simp
  ultimately have "extract_info demo_env names_table ''Name'' ?p
          = ''The count of values in column 'Name' is 2.''"
    by (simp add: quoted_def)
  with ok cnt n1 n2 n3 n4 present bad show ?thesis by blast
qed

text \<open>
  C6 as the specification words it, for every prompt of the count family, fails where
  the language model is missing: the same query is answered with the error of the
  parse step, not with the count.
\<close>

theorem C6_no_model_counterexample:
  "matches Count (str_lower no_model_env ''Count the names'')
   \<and> \<not> matches Minimum (str_lower no_model_env ''Count the names'')
   \<and> \<not> matches Maximum (str_lower no_model_env ''Count the names'')
   \<and> \<not> matches Average (str_lower no_model_env ''Count the names'')
   \<and> \<not> matches Sum (str_lower no_model_env ''Count the names'')
   \<and> names_table ''Name'' = Some [Some ''abc'', None, Some ''x'']
   \<and> extract_info no_model_env names_table ''Name'' ''Count the names''
       = ''Error: [E050] Can't find model 'en_core_web_sm'. It doesn't seem to be a Python package or a valid path to a data directory.''
   \<and> extract_info no_model_env names_table ''Name'' ''Count the names''
       \<noteq> ''The count of values in column 'Name' is 2.''"
  by code_simp

subsection \<open>C7: prompts without a trigger\<close>

text \<open>
  C7, as the code has it. Whenever the parse step returns and no family matches the lower-cased prompt, the
  result is the fixed guidance string, whatever the table and the column label are; the
  string names the eight families between single quotes.
\<close>

theorem C7_unsupported_prompt:
  assumes "parse_ok E prompt"
    and "\<forall>st. \<not> matches st (str_lower E prompt)"
  shows "extract_info E df column prompt
           = ''Query not supported. Please rephrase your query to include 'minimum', 'maximum', 'average', 'sum', 'count', 'median', 'standard deviation', or 'variance'.''
         \<and> list_all (\<lambda>name. contains (quoted name) (extract_info E df column prompt))
              [''minimum'', ''maximum'', ''average'', ''sum'', ''count'', ''median'',
               ''standard deviation'', ''variance'']"
proof -
  have "first_match (str_lower E prompt) = None"
    using assms(2) by (simp add: first_match_None)
  with assms(1) have r: "extract_info E df column prompt = unsupported"
    by (simp add: extract_info_dispatch)
  have names: "list_all (\<lambda>name. contains (quoted name) unsupported)
              [''minimum'', ''maximum'', ''average'', ''sum'', ''count'', ''median'',
               ''standard deviation'', ''variance'']"
    by code_simp
  show ?thesis
  proof
    show "extract_info E df column prompt
           = ''Query not supported. Please rephrase your query to include 'minimum', 'maximum', 'average', 'sum', 'count', 'median', 'standard deviation', or 'variance'.''"
      by (simp only: r unsupported_def)
    show "list_all (\<lambda>name. contains (quoted name) (extract_info E df column prompt))
              [''minimum'', ''maximum'', ''average'', ''sum'', ''count'', ''median'',
               ''standard deviation'', ''variance'']"
      by (simp only: r names)
  qed
qed

text \<open>
  C7 for the prompt \<^verbatim>\<open>Tell me a joke\<close>, with a column that exists, a column that does
  not, and another table.
\<close>

theorem C7_unsupported_prompt_witness:
  "parse_ok demo_env ''Tell me a joke''
   \<and> first_match (str_lower demo_env ''Tell me a joke'') = None
   \<and> age_table ''Height'' = None
   \<and> extract_info demo_env age_table ''Age'' ''Tell me a joke'' = unsupported
   \<and> extract_info demo_env age_table ''Height'' ''Tell me a joke'' = unsupported
   \<and> extract_info demo_env names_table ''Age'' ''Tell me a joke'' = unsupported"
proof -
  let ?p = "''Tell me a joke''"
  have ok: "parse_ok demo_env ?p"
    by (simp add: parse_ok_def demo_env_def)
  have fm: "first_match (str_lower demo_env ?p) = None"
    by code_simp
  then have none: "\<forall>st. \<not> matches st (str_lower demo_env ?p)"
    by (simp add: first_match_None)
  have absent: "age_table ''Height'' = None"
    by (simp add: age_table_def)
  have "extract_info demo_env df column ?p = unsupported" for df column
    using C7_unsupported_prompt [OF ok none, of df column] by (simp only: unsupported_def)
  with ok fm absent show ?thesis by blast
qed

text \<open>
  C7 as the specification words it, for every prompt without a trigger, fails where the
  language model is missing: \<^verbatim>\<open>Tell me a joke\<close> is answered with the error of the parse
  step, not with the guidance string.
\<close>

theorem C7_no_model_counterexample:
  "first_match (str_lower no_model_env ''Tell me a joke'') = None
   \<and> extract_info no_model_env age_table ''Age'' ''Tell me a joke''
       = ''Error: [E050] Can't find model 'en_core_web_sm'. It doesn't seem to be a Python package or a valid path to a data directory.''
   \<and> extract_info no_model_env age_table ''Age'' ''Tell me a joke'' \<noteq> unsupported"
  by code_simp

subsection \<open>C8: the case of ASCII letters does not matter\<close>

text \<open>
  C8, as the code has it. The cascade reads the prompt only through \<^verbatim>\<open>prompt.lower()\<close>,
  and the parse step reads it as typed. So two prompts with the same lower-casing, on
  which the parse step has the same outcome, get the same result. In particular this
  holds for two ASCII prompts that are letter by letter the same up to case, where
  \<^verbatim>\<open>str.lower()\<close> is the lower-casing of \<open>A\<close> to \<open>Z\<close>.
\<close>

theorem C8_case_insensitive:
  "(str_lower E q = str_lower E p \<and> nlp_call E q = nlp_call E p
      \<longrightarrow> extract_info E df column q = extract_info E df column p)
   \<and> (case_variant p q \<and> str_lower E p = ascii_lower p \<and> str_lower E q = ascii_lower q
        \<and> nlp_call E q = nlp_call E p
      \<longrightarrow> extract_info E df column q = extract_info E df column p)"
proof -
  have same: "extract_info E df column q = extract_info E df column p"
    if low: "str_lower E q = str_lower E p" and nlp: "nlp_call E q = nlp_call E p"
  proof -
    have "extract_info_cascade E df column q = extract_info_cascade E df column p"
      by (simp only: cascade_dispatch low)
    then show ?thesis
      unfolding extract_info_def extract_info_try_def
      by (simp only: nlp)
  qed
  have "str_lower E q = str_lower E p"
    if "case_variant p q" and "str_lower E p = ascii_lower p" and "str_lower E q = ascii_lower q"
    using that by (simp add: case_variant_lower)
  with same show ?thesis by blast
qed

text \<open>C8 for \<^verbatim>\<open>minimum\<close>, \<^verbatim>\<open>MINIMUM\<close> and \<^verbatim>\<open>Minimum\<close>.\<close>

theorem C8_case_insensitive_witness:
  "case_variant ''minimum'' ''MINIMUM''
   \<and> case_variant ''minimum'' ''Minimum''
   \<and> str_lower demo_env ''minimum'' = ascii_lower ''minimum''
   \<and> str_lower demo_env ''MINIMUM'' = ascii_lower ''MINIMUM''
   \<and> str_lower demo_env ''Minimum'' = ascii_lower ''Minimum''
   \<and> str_lower demo_env ''MINIMUM'' = str_lower demo_env ''minimum''
   \<and> nlp_call demo_env ''MINIMUM'' = nlp_call demo_env ''minimum''
   \<and> nlp_call demo_env ''Minimum'' = nlp_call demo_env ''minimum''
   \<and> extract_info demo_env age_table ''Age'' ''minimum'' = ''The minimum value in column 'Age' is 10.0.''
   \<and> extract_info demo_env age_table ''Age'' ''MINIMUM'' = ''The minimum value in column 'Age' is 10.0.''
   \<and> extract_info demo_env age_table ''Age'' ''Minimum'' = ''The minimum value in column 'Age' is 10.0.''"
proof -
  have v1: "case_variant ''minimum'' ''MINIMUM''" and v2: "case_variant ''minimum'' ''Minimum''"
    by code_simp+
  have l0: "str_lower demo_env ''minimum'' = ascii_lower ''minimum''"
    and l1: "str_lower demo_env ''MINIMUM'' = ascii_lower ''MINIMUM''"
    and l2: "str_lower demo_env ''Minimum'' = ascii_lower ''Minimum''"
    by (simp_all add: demo_env_def)
  have l3: "str_lower demo_env ''MINIMUM'' = str_lower demo_env ''minimum''"
    by code_simp
  have n1: "nlp_call demo_env ''MINIMUM'' = nlp_call demo_env ''minimum''"
    and n2: "nlp_call demo_env ''Minimum'' = nlp_call demo_env ''minimum''"
    by (simp_all add: demo_env_def)
  have base: "extract_info demo_env age_table ''Age'' ''minimum'' = ''The minimum value in column 'Age' is 10.0.''"
    by code_simp
  have r1: "extract_info demo_env age_table ''Age'' ''MINIMUM'' = extract_info demo_env age_table ''Age'' ''minimum''"
    using C8_case_insensitive [where E = demo_env and p = "''minimum''" and q = "''MINIMUM''"
        and df = age_table and column = "''Age''"] l3 n1
    by blast
  have r2: "extract_info demo_env age_table ''Age'' ''Minimum'' = extract_info demo_env age_table ''Age'' ''minimum''"
    using C8_case_insensitive [where E = demo_env and p = "''minimum''" and q = "''Minimum''"
        and df = age_table and column = "''Age''"] v2 l0 l2 n2
    by blast
  from r1 r2 base
  have "extract_info demo_env age_table ''Age'' ''MINIMUM'' = ''The minimum value in column 'Age' is 10.0.''"
    and "extract_info demo_env age_table ''Age'' ''Minimum'' = ''The minimum value in column 'Age' is 10.0.''"
    by simp_all
  with v1 v2 l0 l1 l2 l3 n1 n2 base show ?thesis by blast
qed

text \<open>
  C8 as the specification words it, for any case variant, fails outside ASCII: the
  prompt long s followed by \<^verbatim>\<open>um\<close> and its upper-case form \<^verbatim>\<open>SUM\<close> differ only in case,
  and the parse step treats them alike, but only \<^verbatim>\<open>SUM\<close> lower-cases to a text that
  holds the trigger \<^verbatim>\<open>sum\<close>.
\<close>

theorem C8_long_s_counterexample:
  "demo_upper long_s_um = ''SUM''
   \<and> str_lower demo_env long_s_um = long_s_um
   \<and> str_lower demo_env ''SUM'' = ''sum''
   \<and> nlp_call demo_env ''SUM'' = nlp_call demo_env long_s_um
   \<and> extract_info demo_env age_table ''Age'' long_s_um = unsupported
   \<and> extract_info demo_env age_table ''Age'' ''SUM''
       = ''The sum of values in column 'Age' is 60.0.''
   \<and> extract_info demo_env age_table ''Age'' ''SUM''
       \<noteq> extract_info demo_env age_table ''Age'' long_s_um"
  by code_simp

subsection \<open>C9: the parse step\<close>

text \<open>
  C9, as the code has it. The two parse lines sit inside the \<^verbatim>\<open>try\<close> block. When both
  return, \<open>extract_info\<close> gives the same result as the function without them. When
  \<^verbatim>\<open>spacy.load\<close> raises, or \<^verbatim>\<open>nlp(prompt)\<close> does, the result is \<^verbatim>\<open>Error: \<close> followed by
  that exception's text, whatever the table, the column and the prompt are.
\<close>

theorem C9_parse_step_effect:
  "(parse_ok E prompt
      \<longrightarrow> extract_info E df column prompt = extract_info_without_parse E df column prompt)
   \<and> (spacy_load E ''en_core_web_sm'' = Some m
      \<longrightarrow> extract_info E df column prompt = ''Error: '' @ m)
   \<and> (spacy_load E ''en_core_web_sm'' = None \<and> nlp_call E prompt = Some m
      \<longrightarrow> extract_info E df column prompt = ''Error: '' @ m)"
proof (intro conjI impI)
  assume "parse_ok E prompt"
  then have "extract_info_try E df column prompt = extract_info_cascade E df column prompt"
    by (rule try_parse_ok)
  then show "extract_info E df column prompt = extract_info_without_parse E df column prompt"
    by (simp only: extract_info_def extract_info_without_parse_def)
next
  assume "spacy_load E ''en_core_web_sm'' = Some m"
  then have "extract_info_try E df column prompt = Inl m"
    by (simp add: extract_info_try_def)
  then show "extract_info E df column prompt = ''Error: '' @ m"
    by (simp add: extract_info_def)
next
  assume "spacy_load E ''en_core_web_sm'' = None \<and> nlp_call E prompt = Some m"
  then have "extract_info_try E df column prompt = Inl m"
    by (simp add: extract_info_try_def)
  then show "extract_info E df column prompt = ''Error: '' @ m"
    by (simp add: extract_info_def)
qed

text \<open>
  C9 with the language model installed and, on the same query, without it.
\<close>

theorem C9_parse_step_effect_witness:
  "parse_ok demo_env ''What is the average?''
   \<and> extract_info demo_env age_table ''Age'' ''What is the average?''
       = extract_info_without_parse demo_env age_table ''Age'' ''What is the average?''
   \<and> spacy_load no_model_env ''en_core_web_sm''
       = Some (''[E050] Can't find model 'en_core_web_sm'. It doesn't seem to be a Python package or a valid path to a data directory.'')
   \<and> extract_info no_model_env age_table ''Age'' ''What is the average?''
       = ''Error: [E050] Can't find model 'en_core_web_sm'. It doesn't seem to be a Python package or a valid path to a data directory.''"
proof -
  let ?p = "''What is the average?''"
  let ?m = "''[E050] Can't find model 'en_core_web_sm'. It doesn't seem to be a Python package or a valid path to a data directory.''"
  have ok: "parse_ok demo_env ?p"
    by (simp add: parse_ok_def demo_env_def)
  have missing: "spacy_load no_model_env ''en_core_web_sm'' = Some ?m"
    by (simp add: no_model_env_def quoted_def)
  have r1: "extract_info demo_env age_table ''Age'' ?p
              = extract_info_without_parse demo_env age_table ''Age'' ?p"
    using C9_parse_step_effect [where E = demo_env and prompt = ?p and df = age_table
        and column = "''Age''"] ok
    by blast
  have r2: "extract_info no_model_env age_table ''Age'' ?p = ''Error: '' @ ?m"
    using C9_parse_step_effect [where E = no_model_env and prompt = ?p and df = age_table
        and column = "''Age''" and m = ?m] missing
    by blast
  show ?thesis
    using ok missing r1 r2 by simp
qed

text \<open>
  C9 as the specification words it fails: where the language model is missing, the
  query that the function without the parse lines answers with the average is answered
  with an error.
\<close>

theorem C9_parse_step_counterexample:
  "extract_info no_model_env age_table ''Age'' ''What is the average?''
     = ''Error: [E050] Can't find model 'en_core_web_sm'. It doesn't seem to be a Python package or a valid path to a data directory.''
   \<and> extract_info_without_parse no_model_env age_table ''Age'' ''What is the average?''
     = ''The average value in column 'Age' is 20.0.''
   \<and> extract_info no_model_env age_table ''Age'' ''What is the average?''
     \<noteq> extract_info_without_parse no_model_env age_table ''Age'' ''What is the average?''"
  by code_simp

subsection \<open>C10: triggers inside longer words\<close>

text \<open>
  C10, as the code has it. A trigger counts wherever it occurs in the lower-cased prompt, with any text
  before and after it, letters included. Whenever the parse step returns and the
  lower-cased prompt is \<open>pre @ k @ post\<close> for a trigger \<open>k\<close> of a family, the result is
  not the guidance for unsupported queries; and when no family of lower rank matches,
  it is the outcome of the family of \<open>k\<close>.
\<close>

theorem C10_substring_matching:
  assumes "parse_ok E prompt"
    and "k \<in> set (triggers st)"
    and "str_lower E prompt = pre @ k @ post"
  shows "extract_info E df column prompt \<noteq> unsupported
         \<and> ((\<forall>st'. rank st' < rank st \<longrightarrow> \<not> matches st' (str_lower E prompt))
            \<longrightarrow> extract_info E df column prompt = report (outcome E df column st))"
proof -
  have "contains k (str_lower E prompt)"
    using assms(3) by (auto simp: contains_iff)
  with assms(2) have m: "matches st (str_lower E prompt)"
    by (auto simp: matches_def list_ex_iff)
  then have "first_match (str_lower E prompt) \<noteq> None"
    by (auto simp: first_match_None)
  then obtain st0 where "first_match (str_lower E prompt) = Some st0"
    by blast
  with assms(1) have "extract_info E df column prompt = report (outcome E df column st0)"
    by (simp add: extract_info_dispatch)
  then have a: "extract_info E df column prompt \<noteq> unsupported"
    by (simp only: report_outcome_neq_unsupported not_False_eq_True)
  have b: "extract_info E df column prompt = report (outcome E df column st)"
    if "\<forall>st'. rank st' < rank st \<longrightarrow> \<not> matches st' (str_lower E prompt)"
  proof -
    have "first_match (str_lower E prompt) = Some st"
      using m that by (rule first_match_SomeI)
    with assms(1) show ?thesis
      by (simp add: extract_info_dispatch)
  qed
  from a b show ?thesis by blast
qed

text \<open>
  C10 for \<^verbatim>\<open>Give me a summary\<close>, where \<^verbatim>\<open>sum\<close> occurs inside \<^verbatim>\<open>summary\<close>: the sum is
  computed.
\<close>

theorem C10_substring_matching_witness:
  "parse_ok demo_env ''Give me a summary''
   \<and> ''sum'' \<in> set (triggers Sum)
   \<and> str_lower demo_env ''Give me a summary'' = ''give me a '' @ ''sum'' @ ''mary''
   \<and> \<not> matches Minimum (str_lower demo_env ''Give me a summary'')
   \<and> \<not> matches Maximum (str_lower demo_env ''Give me a summary'')
   \<and> \<not> matches Average (str_lower demo_env ''Give me a summary'')
   \<and> extract_info demo_env age_table ''Age'' ''Give me a summary'' \<noteq> unsupported
   \<and> extract_info demo_env age_table ''Age'' ''Give me a summary''
       = ''The sum of values in column 'Age' is 60.0.''"
proof -
  let ?p = "''Give me a summary''"
  have ok: "parse_ok demo_env ?p"
    by (simp add: parse_ok_def demo_env_def)
  have k: "''sum'' \<in> set (triggers Sum)"
    by simp
  have split: "str_lower demo_env ?p = ''give me a '' @ ''sum'' @ ''mary''"
    by code_simp
  have n1: "\<not> matches Minimum (str_lower demo_env ?p)" and n2: "\<not> matches Maximum (str_lower demo_env ?p)"
    and n3: "\<not> matches Average (str_lower demo_env ?p)"
    by code_simp+
  have first: "\<forall>st'. rank st' < rank Sum \<longrightarrow> \<not> matches st' (str_lower demo_env ?p)"
  proof (intro allI impI)
    fix st' assume "rank st' < rank Sum"
    then show "\<not> matches st' (str_lower demo_env ?p)"
      using n1 n2 n3 by (cases st') simp_all
  qed
  note inst = C10_substring_matching [where df = age_table and column = "''Age''", OF ok k split]
  from inst have r1: "extract_info demo_env age_table ''Age'' ?p \<noteq> unsupported"
    by blast
  from inst first
  have "extract_info demo_env age_table ''Age'' ?p = report (outcome demo_env age_table ''Age'' Sum)"
    by blast
  moreover have "report (outcome demo_env age_table ''Age'' Sum)
                   = ''The sum of values in column 'Age' is 60.0.''"
    by code_simp
  ultimately have r2: "extract_info demo_env age_table ''Age'' ?p
                         = ''The sum of values in column 'Age' is 60.0.''"
    by simp
  from ok k split n1 n2 n3 r1 r2 show ?thesis by blast
qed

text \<open>
  C10 as the specification words it, for every prompt with a trigger inside a longer
  word, fails where the language model is missing: \<^verbatim>\<open>Give me a summary\<close> is answered
  with the error of the parse step, and no sum is computed.
\<close>

theorem C10_no_model_counterexample:
  "str_lower no_model_env ''Give me a summary'' = ''give me a '' @ ''sum'' @ ''mary''
   \<and> extract_info no_model_env age_table ''Age'' ''Give me a summary''
       = ''Error: [E050] Can't find model 'en_core_web_sm'. It doesn't seem to be a Python package or a valid path to a data directory.''
   \<and> extract_info no_model_env age_table ''Age'' ''Give me a summary''
       \<noteq> ''The sum of values in column 'Age' is 60.0.''"
  by code_simp

end
